theory Spec2Isabelle
  imports Main "HOL-Library.Word" "HOL-Library.AList" "HOL-Library.Char_ord" "HOL-Library.List_Lexorder"
begin

unbundle bit_operations_syntax

section \<open>mirrorfs: directory and file nodes over the real filesystem\<close>

text \<open>
  The development embeds the node operations of package \<open>mirrorfs\<close> (\<open>dir.go\<close>, \<open>file.go\<close>)
  and the hook registry (\<open>HookHandler\<close>). The Go methods call the operating system and the
  hook registry; both are made explicit in a \<open>world\<close> that every operation takes and
  returns: the real filesystem as a tree, the working directory, the stats that fail for
  a cause outside the tree, the registry, and a trace that records every hook dispatch and
  every system call in the order the code makes them.
  Calls to the logger (\<open>lgr.Debug\<close>, \<open>lgrEnd\<close>) only print and are left out.
\<close>

subsection \<open>Values of the Go standard library and of bazil.org/fuse\<close>

type_synonym byte = "8 word"

text \<open>\<open>os.FileMode\<close> is a \<open>uint32\<close>; \<open>ModeDir\<close> is its top bit, \<open>ModePerm\<close> is \<open>0777\<close>.\<close>

type_synonym FileMode = "32 word"

definition ModeDir :: FileMode where
  "ModeDir = push_bit 31 1"

definition ModePerm :: FileMode where
  "ModePerm = 511"

datatype Errno =
  ENOENT | EEXIST | ENOTDIR | EISDIR | ENOTEMPTY | EBUSY | EBADF | EINVAL | EACCES | EIO

text \<open>
  A Go \<open>error\<close> value: a bare \<open>syscall.Errno\<close>, an \<open>errors.New\<close> string, or the
  \<open>*os.PathError\<close> (operation, path, cause) that the \<open>os\<close> functions return.
  A function returning \<open>error\<close> is modelled with result \<open>error + 'a\<close>, \<open>Inl\<close> the error.
\<close>

datatype error = Errno Errno | ErrorString string | PathError string string error

record Stat_t =
  Ino :: "64 word"

text \<open>
  \<open>os.FileInfo\<close>: \<open>fi_Sys\<close> is the result of the type assertion
  \<open>Sys().(*syscall.Stat_t)\<close>, \<open>None\<close> when it does not hold.
\<close>

record FileInfo =
  fi_Name :: string
  fi_Size :: "64 word"
  fi_Mode :: FileMode
  fi_Sys :: "Stat_t option"

definition IsDir :: "FileInfo \<Rightarrow> bool" where
  "IsDir fi = (fi_Mode fi AND ModeDir \<noteq> 0)"

text \<open>
  \<open>fuse.Attr\<close> with the fields of bazil.org/fuse; times and durations are counted in
  nanoseconds. The code of this package assigns \<open>Inode\<close>, \<open>Size\<close> and \<open>Mode\<close> only.
\<close>

record Attr =
  Valid :: int
  Inode :: "64 word"
  Size :: "64 word"
  Blocks :: "64 word"
  Atime :: int
  Mtime :: int
  Ctime :: int
  Crtime :: int
  Mode :: FileMode
  Nlink :: "32 word"
  Uid :: "32 word"
  Gid :: "32 word"
  Rdev :: "32 word"
  Flags :: "32 word"
  BlockSize :: "32 word"

text \<open>\<open>fuse.DirentType\<close>; \<open>DT_Unknown\<close> is its zero value.\<close>

datatype DirentType =
  DT_Unknown | DT_Socket | DT_Link | DT_File | DT_Block | DT_Dir | DT_Char | DT_FIFO

record Dirent =
  de_Inode :: "64 word"
  de_Type :: DirentType
  de_Name :: string

text \<open>The request context is opaque to this package.\<close>

datatype ctx = Ctx nat

subsection \<open>Paths: \<open>filepath.Clean\<close> and \<open>filepath.Join\<close>\<close>

primrec split_slash :: "string \<Rightarrow> string list" where
  "split_slash [] = [[]]"
| "split_slash (c # cs) =
     (if c = CHR ''/'' then [] # split_slash cs
      else (case split_slash cs of
              [] \<Rightarrow> [[c]]
            | x # xs \<Rightarrow> (c # x) # xs))"

fun join_slash :: "string list \<Rightarrow> string" where
  "join_slash [] = []"
| "join_slash [x] = x"
| "join_slash (x # y # ys) = x @ ''/'' @ join_slash (y # ys)"

text \<open>
  Cleaning works on the elements of a path with a stack \<open>acc\<close> of the elements kept so
  far (innermost first). In a rooted path a \<open>..\<close> at the root is dropped; in a relative
  path leading \<open>..\<close> elements are kept.
\<close>

fun clean_rooted :: "string list \<Rightarrow> string list \<Rightarrow> string list" where
  "clean_rooted acc [] = rev acc"
| "clean_rooted acc (c # cs) =
     (if c = [] \<or> c = ''.'' then clean_rooted acc cs
      else if c = ''..'' then clean_rooted (drop 1 acc) cs
      else clean_rooted (c # acc) cs)"

fun clean_relative :: "string list \<Rightarrow> string list \<Rightarrow> string list" where
  "clean_relative acc [] = rev acc"
| "clean_relative acc (c # cs) =
     (if c = [] \<or> c = ''.'' then clean_relative acc cs
      else if c = ''..'' then
        (case acc of
           [] \<Rightarrow> clean_relative [c] cs
         | a # as \<Rightarrow> if a = ''..'' then clean_relative (c # acc) cs else clean_relative as cs)
      else clean_relative (c # acc) cs)"

definition rooted :: "string \<Rightarrow> bool" where
  "rooted p = (case p of [] \<Rightarrow> False | c # _ \<Rightarrow> c = CHR ''/'')"

definition Clean :: "string \<Rightarrow> string" where
  "Clean p =
     (if p = [] then ''.''
      else if rooted p then ''/'' @ join_slash (clean_rooted [] (split_slash p))
      else (let s = join_slash (clean_relative [] (split_slash p))
            in if s = [] then ''.'' else s))"

text \<open>\<open>filepath.Join\<close> ignores empty elements, joins the rest with a slash and cleans.\<close>

definition Join :: "string list \<Rightarrow> string" where
  "Join elem =
     (let es = filter (\<lambda>e. e \<noteq> []) elem
      in if es = [] then [] else Clean (join_slash es))"

subsection \<open>The real filesystem\<close>

text \<open>
  The real filesystem is a tree of regular files and directories. A node carries its
  permission bits, what \<open>Sys()\<close> yields for it, and its bytes or its named children.
  Simplifications: the umask, symbolic links and timestamps are not modelled, the only
  size limit of a file is the largest offset, and \<open>O_TRUNC\<close> truncates whatever the
  access mode. Permissions are not part of the tree; a stat that fails for a cause the
  tree does not show is part of the world (below).
\<close>

datatype inode =
    File FileMode "Stat_t option" "byte list"
  | Dir FileMode "Stat_t option" "(string \<times> inode) list"

fun resolve :: "inode \<Rightarrow> string list \<Rightarrow> Errno + inode" where
  "resolve n [] = Inr n"
| "resolve (File m s d) (c # cs) = Inl ENOTDIR"
| "resolve (Dir m s es) (c # cs) =
     (case map_of es c of
        None \<Rightarrow> Inl ENOENT
      | Some n \<Rightarrow> resolve n cs)"

text \<open>
  A path name is resolved element by element, as the kernel does: \<open>walk root cur cs\<close>
  starts at the node with path \<open>cur\<close> (its names from the root) and follows the elements
  \<open>cs\<close>. Every element, also an empty one, \<open>.\<close> or \<open>..\<close>, needs the node reached so
  far to be an existing directory, so \<open>/tmp/nope/..\<close> fails with \<open>ENOENT\<close> and \<open>/b.txt/\<close>
  with \<open>ENOTDIR\<close> when \<open>/b.txt\<close> is a file. The result is the path of the node reached.
\<close>

fun walk :: "inode \<Rightarrow> string list \<Rightarrow> string list \<Rightarrow> Errno + string list" where
  "walk root cur [] = Inr cur"
| "walk root cur (c # cs) =
     (case resolve root cur of
        Inl e \<Rightarrow> Inl e
      | Inr (File m s d) \<Rightarrow> Inl ENOTDIR
      | Inr (Dir m s es) \<Rightarrow>
          if c = [] \<or> c = ''.'' then walk root cur cs
          else if c = ''..'' then walk root (butlast cur) cs
          else (case map_of es c of
                  None \<Rightarrow> Inl ENOENT
                | Some n \<Rightarrow> walk root (cur @ [c]) cs))"

text \<open>
  \<open>put n p new\<close> stores \<open>new\<close> at path \<open>p\<close> below \<open>n\<close>: it replaces the node there, or adds
  a new last element to an existing directory. Elsewhere the tree is unchanged.
\<close>

fun put :: "inode \<Rightarrow> string list \<Rightarrow> inode \<Rightarrow> inode" where
  "put n [] new = new"
| "put (File m s d) (c # cs) new = File m s d"
| "put (Dir m s es) (c # cs) new =
     (case map_of es c of
        None \<Rightarrow> if cs = [] then Dir m s (es @ [(c, new)]) else Dir m s es
      | Some n \<Rightarrow> Dir m s (AList.update c (put n cs new) es))"

fun unlink :: "inode \<Rightarrow> string list \<Rightarrow> inode" where
  "unlink n [] = n"
| "unlink (File m s d) (c # cs) = File m s d"
| "unlink (Dir m s es) (c # cs) =
     (if cs = [] then Dir m s (AList.delete c es)
      else (case map_of es c of
              None \<Rightarrow> Dir m s es
            | Some n \<Rightarrow> Dir m s (AList.update c (unlink n cs) es)))"

text \<open>
  The \<open>FileInfo\<close> of a node: the mode has \<open>ModeDir\<close> set exactly for a directory. The size
  of a directory depends on the platform and is given as 0; no operation reads it.
\<close>

definition info :: "string \<Rightarrow> inode \<Rightarrow> FileInfo" where
  "info name n =
     (case n of
        File m s d \<Rightarrow>
          \<lparr>fi_Name = name, fi_Size = of_nat (length d), fi_Mode = m AND NOT ModeDir, fi_Sys = s\<rparr>
      | Dir m s es \<Rightarrow>
          \<lparr>fi_Name = name, fi_Size = 0, fi_Mode = m OR ModeDir, fi_Sys = s\<rparr>)"

text \<open>
  Writing \<open>b\<close> at offset \<open>off\<close> into the bytes \<open>old\<close>. A write of no bytes changes
  nothing, whatever the offset; otherwise a gap before the offset is filled with zero bytes.
\<close>

definition write_at :: "byte list \<Rightarrow> nat \<Rightarrow> byte list \<Rightarrow> byte list" where
  "write_at old off b =
     (if b = [] then old
      else take off old @ replicate (off - length old) 0 @ b @ drop (off + length b) old)"

text \<open>
  \<open>grown t t'\<close>: the tree \<open>t'\<close> has every entry of \<open>t\<close>, under the same name and of the
  same kind (file or directory). Replacing the bytes of a file and adding an entry to a
  directory grow a tree; path resolution that succeeds in \<open>t\<close> gives the same path in \<open>t'\<close>.
\<close>

inductive grown :: "inode \<Rightarrow> inode \<Rightarrow> bool" where
  grown_File: "grown (File m s d) (File m' s' d')"
| grown_Dir:
    "(\<And>c n. map_of es c = Some n \<Longrightarrow> \<exists>n'. map_of es' c = Some n' \<and> grown n n')
     \<Longrightarrow> grown (Dir m s es) (Dir m' s' es')"

subsection \<open>Nodes, requests and event payloads\<close>

text \<open>
  A \<open>dir\<close> or \<open>file\<close> (here \<open>file'\<close>) is bound to a path. Its embedded \<open>HookHandler\<close> is a Go map, a
  reference to the one registry of the filesystem, which lives in the world.
\<close>

record dir =
  dir_path :: string

record file' =
  file_path :: string

datatype Node = DirNode dir | FileNode file'

definition NewDirectory :: "string \<Rightarrow> dir" where
  "NewDirectory path = \<lparr>dir_path = path\<rparr>"

definition NewFile :: "string \<Rightarrow> file'" where
  "NewFile path = \<lparr>file_path = path\<rparr>"

text \<open>The requests and responses of bazil.org/fuse, with the fields this package reads or writes.\<close>

record LookupRequest =
  lq_Name :: string

record LookupResponse =
  lr_Attr :: Attr

record SetattrRequest =
  sq_Size :: "64 word"
  sq_Mode :: FileMode
  sq_Uid :: "32 word"
  sq_Gid :: "32 word"

record SetattrResponse =
  sr_Attr :: Attr

record CreateRequest =
  cq_Name :: string
  cq_Flags :: "32 word"
  cq_Mode :: FileMode

record CreateResponse =
  cr_Attr :: Attr

record RemoveRequest =
  rq_Name :: string

record MkdirRequest =
  mq_Name :: string
  mq_Mode :: FileMode

record WriteRequest =
  wq_Flags :: "32 word"
  wq_Data :: "byte list"
  wq_Offset :: "64 word"

record WriteResponse =
  wr_Size :: "64 word"

text \<open>
  An event payload is a \<open>map[string]interface{}\<close>; it is kept as the list of its keys and
  values in the order of the map literal. A pointer stored in a payload is recorded as the
  value it points to at the time of the dispatch; \<open>VNil\<close> is Go's \<open>nil\<close>.
\<close>

datatype pval =
    VNil
  | VDir dir
  | VFile file'
  | VCtx ctx
  | VAttr Attr
  | VErr error
  | VEntries "FileInfo list"
  | VBytes "byte list"
  | VLookupReq LookupRequest
  | VLookupResp LookupResponse
  | VSetattrReq SetattrRequest
  | VSetattrResp SetattrResponse
  | VCreateReq CreateRequest
  | VCreateResp CreateResponse
  | VRemoveReq RemoveRequest
  | VMkdirReq MkdirRequest
  | VWriteReq WriteRequest
  | VWriteResp WriteResponse

type_synonym payload = "(string \<times> pval) list"

text \<open>An \<open>error\<close> interface value stored in a payload: \<open>nil\<close> when there is no error.\<close>

definition verr :: "error + 'a \<Rightarrow> pval" where
  "verr r = (case r of Inl e \<Rightarrow> VErr e | Inr _ \<Rightarrow> VNil)"

subsection \<open>The world: filesystem, registry and trace\<close>

text \<open>A hook callback is a Go closure; the registry holds it by an identifier.\<close>

type_synonym HookFN = nat

text \<open>An open \<open>*os.File\<close>: the name it was opened with, the resolved path and the open flags.\<close>

record osfile =
  of_name :: string
  of_path :: "string list"
  of_flag :: "64 word"

datatype call =
    Stat string
  | ReadDir string
  | ReadFile string
  | OpenFile string "64 word" FileMode
  | WriteAt osfile "byte list" "64 word"
  | Close osfile
  | Remove string
  | Mkdir string FileMode

datatype action =
    Dispatch string payload "HookFN list"
  | Syscall call

text \<open>
  \<open>stat_fails\<close> gives, for a name, the error of a stat that fails for a cause outside the
  tree (no search permission on a directory of the path, an I/O error, ...); \<open>None\<close> when
  there is no such cause.
\<close>

record world =
  fs_root :: inode
  cwd :: string
  stat_fails :: "string \<Rightarrow> error option"
  hooks :: "(string \<times> HookFN list) list"
  next_ino :: "64 word"
  trace :: "action list"

definition record_call :: "call \<Rightarrow> world \<Rightarrow> world" where
  "record_call c w = w\<lparr>trace := trace w @ [Syscall c]\<rparr>"

subsection \<open>The hook registry (\<open>HookHandler\<close>)\<close>

definition subscribers :: "world \<Rightarrow> string \<Rightarrow> HookFN list" where
  "subscribers w event = (case map_of (hooks w) event of None \<Rightarrow> [] | Some fns \<Rightarrow> fns)"

definition Register :: "string \<Rightarrow> HookFN \<Rightarrow> world \<Rightarrow> world" where
  "Register event fn w = w\<lparr>hooks := AList.update event (subscribers w event @ [fn]) (hooks w)\<rparr>"

text \<open>
  \<open>Handle\<close> resolves the callbacks of the event followed by those of \<open>*\<close>, returns at once
  when there are none, and otherwise starts one goroutine per callback and waits for all of
  them. The trace records the dispatch with the callbacks it starts; what the callbacks do
  and how the goroutines are scheduled is outside the model.
\<close>

definition Handle :: "string \<Rightarrow> payload \<Rightarrow> world \<Rightarrow> world" where
  "Handle event data w =
     (let globalFns = subscribers w ''*'';
          fns = subscribers w event
      in if fns = [] \<and> globalFns = [] then w\<lparr>trace := trace w @ [Dispatch event data []]\<rparr>
         else w\<lparr>trace := trace w @ [Dispatch event data (fns @ globalFns)]\<rparr>)"

subsection \<open>The calls into package \<open>os\<close>\<close>

text \<open>
  Flag values are those of Linux. A name is resolved against the working directory (a
  rooted path) unless it is rooted itself. Every call is recorded in the trace before it
  acts.
\<close>

definition O_WRONLY :: "64 word" where "O_WRONLY = 1"
definition O_RDWR :: "64 word" where "O_RDWR = 2"
definition O_CREATE :: "64 word" where "O_CREATE = 64"
definition O_EXCL :: "64 word" where "O_EXCL = 128"
definition O_TRUNC :: "64 word" where "O_TRUNC = 512"
definition O_APPEND :: "64 word" where "O_APPEND = 1024"

definition has_flag :: "64 word \<Rightarrow> 64 word \<Rightarrow> bool" where
  "has_flag flag b = (flag AND b \<noteq> 0)"

text \<open>
  The access mode is the low two bits of the flags. A descriptor can be written through
  when it is \<open>O_WRONLY\<close> or \<open>O_RDWR\<close>; with both bits set Linux opens the file but
  refuses to read or write through the descriptor.
\<close>

definition writable :: "64 word \<Rightarrow> bool" where
  "writable flag = (flag AND 3 = O_WRONLY \<or> flag AND 3 = O_RDWR)"

definition absolute :: "string \<Rightarrow> string \<Rightarrow> string list" where
  "absolute cw name = split_slash (if rooted name then name else cw @ ''/'' @ name)"

definition basename :: "string \<Rightarrow> string" where
  "basename name =
     (let s = rev (dropWhile (\<lambda>c. c = CHR ''/'') (rev name))
      in if s = [] then take 1 name else last (split_slash s))"

text \<open>The path and the node that a name denotes, in a tree and a working directory.\<close>

definition find_in :: "inode \<Rightarrow> string \<Rightarrow> string \<Rightarrow> Errno + string list \<times> inode" where
  "find_in root cw name =
     (if name = [] then Inl ENOENT
      else (case walk root [] (absolute cw name) of
              Inl e \<Rightarrow> Inl e
            | Inr p \<Rightarrow> (case resolve root p of Inl e \<Rightarrow> Inl e | Inr n \<Rightarrow> Inr (p, n))))"

text \<open>
  The path at which a new entry for the elements \<open>cs\<close> is made: the directory that the
  elements before the last denote, which must not have the last element yet.
\<close>

definition entry_in :: "inode \<Rightarrow> string list \<Rightarrow> Errno + string list" where
  "entry_in root cs =
     (if cs = [] then Inl ENOENT
      else if last cs = [] \<or> last cs = ''.'' \<or> last cs = ''..'' then Inl ENOENT
      else (case walk root [] (butlast cs) of
              Inl e \<Rightarrow> Inl e
            | Inr pp \<Rightarrow>
                (case resolve root pp of
                   Inl e \<Rightarrow> Inl e
                 | Inr (File m s d) \<Rightarrow> Inl ENOTDIR
                 | Inr (Dir m s es) \<Rightarrow>
                     (case map_of es (last cs) of
                        None \<Rightarrow> Inr (pp @ [last cs])
                      | Some n \<Rightarrow> Inl EEXIST))))"

definition strip_slashes :: "string list \<Rightarrow> string list" where
  "strip_slashes cs = rev (dropWhile (\<lambda>c. c = []) (rev cs))"

definition find_name :: "world \<Rightarrow> string \<Rightarrow> Errno + string list \<times> inode" where
  "find_name w name = find_in (fs_root w) (cwd w) name"

definition lookup_name :: "world \<Rightarrow> string \<Rightarrow> Errno + inode" where
  "lookup_name w name = (case find_name w name of Inl e \<Rightarrow> Inl e | Inr (p, n) \<Rightarrow> Inr n)"

text \<open>
  \<open>os.Stat\<close> fails with the error the world gives for the name, if any, and otherwise as
  the path resolution in the tree does.
\<close>

definition os_Stat :: "string \<Rightarrow> world \<Rightarrow> (error + FileInfo) \<times> world" where
  "os_Stat name w =
     (let w' = record_call (Stat name) w
      in case stat_fails w name of
           Some err \<Rightarrow> (Inl err, w')
         | None \<Rightarrow>
             (case lookup_name w name of
                Inl e \<Rightarrow> (Inl (PathError ''stat'' name (Errno e)), w')
              | Inr n \<Rightarrow> (Inr (info (basename name) n), w')))"

text \<open>\<open>ioutil.ReadDir\<close> lists a directory and sorts the entries by name.\<close>

definition ioutil_ReadDir :: "string \<Rightarrow> world \<Rightarrow> (error + FileInfo list) \<times> world" where
  "ioutil_ReadDir dirname w =
     (let w' = record_call (ReadDir dirname) w
      in case lookup_name w dirname of
           Inl e \<Rightarrow> (Inl (PathError ''open'' dirname (Errno e)), w')
         | Inr (File m s d) \<Rightarrow> (Inl (PathError ''readdirent'' dirname (Errno ENOTDIR)), w')
         | Inr (Dir m s es) \<Rightarrow> (Inr (sort_key fi_Name (map (\<lambda>(n, c). info n c) es)), w'))"


text \<open>
  \<open>os.OpenFile\<close>. An existing directory opens for reading only; an existing file opens
  unless \<open>O_CREATE\<close> and \<open>O_EXCL\<close> are both set, and is emptied by \<open>O_TRUNC\<close>. A name that
  denotes nothing is created with \<open>O_CREATE\<close> as an empty file in its directory, unless it
  ends in a slash.
\<close>

definition os_OpenFile :: "string \<Rightarrow> 64 word \<Rightarrow> FileMode \<Rightarrow> world \<Rightarrow> (error + osfile) \<times> world" where
  "os_OpenFile name flag perm w =
     (let w' = record_call (OpenFile name flag perm) w
      in case find_name w name of
           Inr (p, Dir m s es) \<Rightarrow>
             if has_flag flag (O_WRONLY OR O_RDWR) \<or> has_flag flag O_CREATE
             then (Inl (PathError ''open'' name (Errno EISDIR)), w')
             else (Inr \<lparr>of_name = name, of_path = p, of_flag = flag\<rparr>, w')
         | Inr (p, File m s d) \<Rightarrow>
             if has_flag flag O_CREATE \<and> has_flag flag O_EXCL
             then (Inl (PathError ''open'' name (Errno EEXIST)), w')
             else if has_flag flag O_TRUNC
             then (Inr \<lparr>of_name = name, of_path = p, of_flag = flag\<rparr>,
                   w'\<lparr>fs_root := put (fs_root w) p (File m s [])\<rparr>)
             else (Inr \<lparr>of_name = name, of_path = p, of_flag = flag\<rparr>, w')
         | Inl e \<Rightarrow>
             if name \<noteq> [] \<and> e = ENOENT \<and> has_flag flag O_CREATE
             then (if last (absolute (cwd w) name) = []
                   then (Inl (PathError ''open'' name (Errno EISDIR)), w')
                   else (case entry_in (fs_root w) (absolute (cwd w) name) of
                           Inl e' \<Rightarrow> (Inl (PathError ''open'' name (Errno e')), w')
                         | Inr p \<Rightarrow>
                             (Inr \<lparr>of_name = name, of_path = p, of_flag = flag\<rparr>,
                              w'\<lparr>fs_root := put (fs_root w) p
                                    (File (perm AND ModePerm) (Some \<lparr>Ino = next_ino w\<rparr>) []),
                                 next_ino := next_ino w + 1\<rparr>)))
             else (Inl (PathError ''open'' name (Errno e)), w'))"

definition os_File_Close :: "osfile \<Rightarrow> world \<Rightarrow> (error + unit) \<times> world" where
  "os_File_Close h w = (Inr (), record_call (Close h) w)"

text \<open>
  \<open>WriteAt\<close> refuses a file opened with \<open>O_APPEND\<close>, then a negative offset. It calls
  \<open>pwrite\<close> while bytes remain, so with no bytes it makes no system call and succeeds. The
  \<open>pwrite\<close> fails with \<open>EBADF\<close> on a descriptor that cannot be written through and with
  \<open>EINVAL\<close> when the write would end beyond the largest offset; otherwise all of \<open>b\<close> is
  written and its length returned.
\<close>

definition os_File_WriteAt :: "osfile \<Rightarrow> byte list \<Rightarrow> 64 word \<Rightarrow> world \<Rightarrow> (error + 64 word) \<times> world" where
  "os_File_WriteAt h b off w =
     (let w' = record_call (WriteAt h b off) w
      in if has_flag (of_flag h) O_APPEND
         then (Inl (ErrorString ''os: invalid use of WriteAt on file opened with O_APPEND''), w')
         else if sint off < 0
         then (Inl (PathError ''writeat'' (of_name h) (ErrorString ''negative offset'')), w')
         else if b = []
         then (Inr 0, w')
         else if \<not> writable (of_flag h)
         then (Inl (PathError ''write'' (of_name h) (Errno EBADF)), w')
         else if 2 ^ 63 \<le> sint off + int (length b)
         then (Inl (PathError ''write'' (of_name h) (Errno EINVAL)), w')
         else (case resolve (fs_root w) (of_path h) of
                 Inr (File m s d) \<Rightarrow>
                   (Inr (of_nat (length b)),
                    w'\<lparr>fs_root := put (fs_root w) (of_path h) (File m s (write_at d (unat off) b))\<rparr>)
               | _ \<Rightarrow> (Inl (PathError ''write'' (of_name h) (Errno EBADF)), w')))"

text \<open>
  \<open>os.Remove\<close> tries \<open>unlink\<close> and then \<open>rmdir\<close>: a file is removed; a directory is
  removed when it is empty and the name does not end in \<open>.\<close> or \<open>..\<close>.
\<close>

definition os_Remove :: "string \<Rightarrow> world \<Rightarrow> (error + unit) \<times> world" where
  "os_Remove name w =
     (let w' = record_call (Remove name) w;
          final = (case rev (strip_slashes (absolute (cwd w) name)) of [] \<Rightarrow> [] | c # cs \<Rightarrow> c)
      in case find_name w name of
           Inl e \<Rightarrow> (Inl (PathError ''remove'' name (Errno e)), w')
         | Inr (p, File m s d) \<Rightarrow> (Inr (), w'\<lparr>fs_root := unlink (fs_root w) p\<rparr>)
         | Inr (p, Dir m s es) \<Rightarrow>
             if final = ''.'' then (Inl (PathError ''remove'' name (Errno EINVAL)), w')
             else if final = ''..'' then (Inl (PathError ''remove'' name (Errno ENOTEMPTY)), w')
             else if p = [] then (Inl (PathError ''remove'' name (Errno EBUSY)), w')
             else if es \<noteq> [] then (Inl (PathError ''remove'' name (Errno ENOTEMPTY)), w')
             else (Inr (), w'\<lparr>fs_root := unlink (fs_root w) p\<rparr>))"

definition os_Mkdir :: "string \<Rightarrow> FileMode \<Rightarrow> world \<Rightarrow> (error + unit) \<times> world" where
  "os_Mkdir name perm w =
     (let w' = record_call (Mkdir name perm) w
      in case find_name w name of
           Inr (p, n) \<Rightarrow> (Inl (PathError ''mkdir'' name (Errno EEXIST)), w')
         | Inl e \<Rightarrow>
             if name \<noteq> [] \<and> e = ENOENT
             then (case entry_in (fs_root w) (strip_slashes (absolute (cwd w) name)) of
                     Inl e' \<Rightarrow> (Inl (PathError ''mkdir'' name (Errno e')), w')
                   | Inr p \<Rightarrow>
                       (Inr (), w'\<lparr>fs_root := put (fs_root w) p
                                     (Dir (perm AND ModePerm) (Some \<lparr>Ino = next_ino w\<rparr>) []),
                                  next_ino := next_ino w + 1\<rparr>))
             else (Inl (PathError ''mkdir'' name (Errno e)), w'))"

subsection \<open>Directory operations (\<open>dir.go\<close>)\<close>

text \<open>
  A method that returns \<open>error\<close> and writes through a pointer argument returns the result,
  the new value of the pointed-to structure and the new world.
\<close>

definition dir_Attr :: "dir \<Rightarrow> ctx \<Rightarrow> Attr \<Rightarrow> world \<Rightarrow> (error + unit) \<times> Attr \<times> world" where
  "dir_Attr d c a w =
     (let w1 = Handle ''attr:start''
                 [(''directory'', VDir d), (''context'', VCtx c), (''attr'', VAttr a)] w;
          (r, w2) = os_Stat (dir_path d) w1
      in case r of
           Inl err \<Rightarrow> (Inl (Errno ENOENT), a, w2)
         | Inr fileInfo \<Rightarrow>
             (case fi_Sys fileInfo of
                None \<Rightarrow> (Inl (Errno ENOENT), a, w2)
              | Some stat \<Rightarrow>
                  (let a' = a\<lparr>Inode := Ino stat, Mode := fi_Mode fileInfo\<rparr>;
                       w3 = Handle ''attr:end''
                              [(''directory'', VDir d), (''context'', VCtx c), (''attr'', VAttr a')] w2
                   in (Inr (), a', w3))))"

definition file_Attr :: "file' \<Rightarrow> ctx \<Rightarrow> Attr \<Rightarrow> world \<Rightarrow> (error + unit) \<times> Attr \<times> world" where
  "file_Attr f c a w =
     (let w1 = Handle ''Attr:start''
                 [(''file'', VFile f), (''context'', VCtx c), (''attr'', VAttr a)] w;
          (r, w2) = os_Stat (file_path f) w1
      in case r of
           Inl err \<Rightarrow>
             (let w3 = Handle ''Attr:end'' [(''file'', VFile f), (''error'', VErr err)] w2
              in (Inl (Errno ENOENT), a, w3))
         | Inr fileInfo \<Rightarrow>
             (let a1 = a\<lparr>Size := fi_Size fileInfo\<rparr>
              in case fi_Sys fileInfo of
                   None \<Rightarrow> (Inl (Errno ENOENT), a1, w2)
                 | Some stat \<Rightarrow>
                     (let a2 = a1\<lparr>Inode := Ino stat, Mode := fi_Mode fileInfo\<rparr>;
                          w3 = Handle ''Attr:end'' [(''file'', VFile f), (''error'', VNil)] w2
                      in (Inr (), a2, w3))))"

text \<open>\<open>node.Attr\<close> on an \<open>fs.Node\<close> calls the method of the node's own type.\<close>

definition Node_Attr :: "Node \<Rightarrow> ctx \<Rightarrow> Attr \<Rightarrow> world \<Rightarrow> (error + unit) \<times> Attr \<times> world" where
  "Node_Attr node c a w =
     (case node of DirNode d \<Rightarrow> dir_Attr d c a w | FileNode f \<Rightarrow> file_Attr f c a w)"

definition VNode :: "Node \<Rightarrow> pval" where
  "VNode node = (case node of DirNode d \<Rightarrow> VDir d | FileNode f \<Rightarrow> VFile f)"

definition dir_Lookup ::
  "dir \<Rightarrow> ctx \<Rightarrow> LookupRequest \<Rightarrow> LookupResponse \<Rightarrow> world \<Rightarrow> (error + Node) \<times> LookupResponse \<times> world" where
  "dir_Lookup d c req resp w =
     (let w1 = Handle ''Lookup:start''
                 [(''directory'', VDir d), (''context'', VCtx c),
                  (''req'', VLookupReq req), (''resp'', VLookupResp resp)] w;
          fullPath = Join [dir_path d, lq_Name req];
          (r, w2) = os_Stat fullPath w1
      in case r of
           Inl err \<Rightarrow> (Inl (Errno ENOENT), resp, w2)
         | Inr fileInfo \<Rightarrow>
             (let node = (if IsDir fileInfo then DirNode (NewDirectory fullPath)
                          else FileNode (NewFile fullPath));
                  (ar, a', w3) = Node_Attr node c (lr_Attr resp) w2;
                  resp' = resp\<lparr>lr_Attr := a'\<rparr>
              in case ar of
                   Inl err \<Rightarrow> (Inl err, resp', w3)
                 | Inr u \<Rightarrow>
                     (let w4 = Handle ''Lookup:end''
                                 [(''directory'', VDir d), (''node'', VNode node), (''error'', VNil)] w3
                      in (Inr node, resp', w4))))"

text \<open>
  The loop of \<open>ReadDirAll\<close>. \<open>fuse.Dirent\<close> is a struct, so \<open>toReturn[i] = newEntry\<close>
  stores a copy; the loop then assigns \<open>Inode\<close> and \<open>Type\<close> to the local \<open>newEntry\<close>.
\<close>

fun ReadDirAll_loop :: "FileInfo list \<Rightarrow> nat \<Rightarrow> Dirent list \<Rightarrow> error + Dirent list" where
  "ReadDirAll_loop [] i toReturn = Inr toReturn"
| "ReadDirAll_loop (entry # rest) i toReturn =
     (let newEntry = \<lparr>de_Inode = 0, de_Type = DT_Unknown, de_Name = fi_Name entry\<rparr>;
          toReturn' = toReturn[i := newEntry]
      in case fi_Sys entry of
           None \<Rightarrow> Inl (Errno ENOENT)
         | Some stat \<Rightarrow>
             (let newEntry1 = newEntry\<lparr>de_Inode := Ino stat\<rparr>;
                  newEntry2 = (if IsDir entry then newEntry1\<lparr>de_Type := DT_Dir\<rparr>
                               else newEntry1\<lparr>de_Type := DT_File\<rparr>)
              in ReadDirAll_loop rest (Suc i) toReturn'))"

definition dir_ReadDirAll :: "dir \<Rightarrow> ctx \<Rightarrow> world \<Rightarrow> (error + Dirent list) \<times> world" where
  "dir_ReadDirAll d c w =
     (let w1 = Handle ''ReadDirAll:start'' [(''directory'', VDir d), (''context'', VCtx c)] w;
          (r, w2) = ioutil_ReadDir (dir_path d) w1
      in case r of
           Inl err \<Rightarrow>
             (let w3 = Handle ''ReadDirAll:end''
                         [(''directory'', VDir d), (''entries'', VEntries []), (''error'', VErr err)] w2
              in (Inl err, w3))
         | Inr entries \<Rightarrow>
             (case ReadDirAll_loop entries 0
                     (replicate (length entries) \<lparr>de_Inode = 0, de_Type = DT_Unknown, de_Name = []\<rparr>) of
                Inl err \<Rightarrow> (Inl err, w2)
              | Inr toReturn \<Rightarrow>
                  (let w3 = Handle ''ReadDirAll:end''
                              [(''directory'', VDir d), (''entries'', VEntries entries), (''error'', VNil)] w2
                   in (Inr toReturn, w3))))"

definition dir_Setattr ::
  "dir \<Rightarrow> ctx \<Rightarrow> SetattrRequest \<Rightarrow> SetattrResponse \<Rightarrow> world \<Rightarrow> (error + unit) \<times> SetattrResponse \<times> world" where
  "dir_Setattr d c req resp w =
     (let w1 = Handle ''Setattr:start''
                 [(''directory'', VDir d), (''context'', VCtx c),
                  (''request'', VSetattrReq req), (''response'', VSetattrResp resp)] w;
          w2 = Handle ''Setattr:end''
                 [(''directory'', VDir d), (''context'', VCtx c),
                  (''request'', VSetattrReq req), (''response'', VSetattrResp resp)] w1
      in (Inr (), resp, w2))"

text \<open>
  \<open>Create\<close> returns the new \<open>file\<close> twice, as the node and as the handle. The package has
  two copies of \<open>dir.go\<close>: \<open>dir_Create\<close> is the method of \<open>mirrorfs/dir.go\<close>, which opens
  \<open>req.Name\<close>; \<open>dir_Create_joined\<close> is the method of the other copy (the one that also
  implements \<open>Rename\<close>), which opens the joined path. The two copies agree on every other
  method embedded here.
\<close>

definition create_at ::
  "string \<Rightarrow> dir \<Rightarrow> ctx \<Rightarrow> CreateRequest \<Rightarrow> CreateResponse \<Rightarrow> world \<Rightarrow> (error + file' \<times> file') \<times> world" where
  "create_at name d c req resp w =
     (let w1 = Handle ''Create:start''
                 [(''directory'', VDir d), (''context'', VCtx c),
                  (''request'', VCreateReq req), (''response'', VCreateResp resp)] w;
          (r, w2) = os_OpenFile name (ucast (cq_Flags req)) (cq_Mode req) w1
      in case r of
           Inl err \<Rightarrow> (Inl err, w2)
         | Inr f \<Rightarrow>
             (let (cr, w3) = os_File_Close f w2
              in case cr of
                   Inl err \<Rightarrow> (Inl err, w3)
                 | Inr u \<Rightarrow>
                     (let w4 = Handle ''Create:end''
                                 [(''directory'', VDir d), (''node'', VNil),
                                  (''handle'', VNil), (''error'', VNil)] w3;
                          file = NewFile name
                      in (Inr (file, file), w4))))"

definition dir_Create ::
  "dir \<Rightarrow> ctx \<Rightarrow> CreateRequest \<Rightarrow> CreateResponse \<Rightarrow> world \<Rightarrow> (error + file' \<times> file') \<times> world" where
  "dir_Create d c req resp w = create_at (cq_Name req) d c req resp w"

definition dir_Create_joined ::
  "dir \<Rightarrow> ctx \<Rightarrow> CreateRequest \<Rightarrow> CreateResponse \<Rightarrow> world \<Rightarrow> (error + file' \<times> file') \<times> world" where
  "dir_Create_joined d c req resp w =
     (let fullpath = Join [dir_path d, cq_Name req]
      in create_at fullpath d c req resp w)"

definition dir_Remove :: "dir \<Rightarrow> ctx \<Rightarrow> RemoveRequest \<Rightarrow> world \<Rightarrow> (error + unit) \<times> world" where
  "dir_Remove d c req w =
     (let w1 = Handle ''Remove:start''
                 [(''directory'', VDir d), (''context'', VCtx c), (''request'', VRemoveReq req)] w;
          (err, w2) = os_Remove (rq_Name req) w1;
          w3 = Handle ''Remove:end'' [(''directory'', VDir d), (''error'', verr err)] w2
      in (err, w3))"

definition dir_Mkdir :: "dir \<Rightarrow> ctx \<Rightarrow> MkdirRequest \<Rightarrow> world \<Rightarrow> (error + dir) \<times> world" where
  "dir_Mkdir d c req w =
     (let w1 = Handle ''Mkdir:start''
                 [(''directory'', VDir d), (''context'', VCtx c), (''request'', VMkdirReq req)] w;
          fullPath = Join [dir_path d, mq_Name req];
          (r, w2) = os_Mkdir fullPath (mq_Mode req) w1
      in case r of
           Inl err \<Rightarrow>
             (let w3 = Handle ''Mkdir:end''
                         [(''directory'', VDir d), (''node'', VNil), (''error'', VNil)] w2
              in (Inl err, w3))
         | Inr u \<Rightarrow>
             (let node = NewDirectory fullPath;
                  w3 = Handle ''Mkdir:end''
                         [(''directory'', VDir d), (''node'', VDir node), (''error'', VNil)] w2
              in (Inr node, w3)))"

subsection \<open>File operations (\<open>file.go\<close>)\<close>


text \<open>
  \<open>req.Flags\<close> is a \<open>uint32\<close>, \<open>req.Offset\<close> an \<open>int64\<close>; \<open>resp.Size\<close> and the count
  returned by \<open>WriteAt\<close> are \<open>int\<close>, 64 bits wide, and their sum wraps around.
\<close>

definition file_Write ::
  "file' \<Rightarrow> ctx \<Rightarrow> WriteRequest \<Rightarrow> WriteResponse \<Rightarrow> world \<Rightarrow> (error + unit) \<times> WriteResponse \<times> world" where
  "file_Write f c req resp w =
     (let w1 = Handle ''Write:start''
                 [(''file'', VFile f), (''context'', VCtx c),
                  (''request'', VWriteReq req), (''response'', VWriteResp resp)] w;
          (r, w2) = os_Stat (file_path f) w1
      in case r of
           Inl err \<Rightarrow> (Inl err, resp, w2)
         | Inr fInfo \<Rightarrow>
             (let (r2, w3) = os_OpenFile (file_path f) (ucast (wq_Flags req) OR O_WRONLY) (fi_Mode fInfo) w2
              in case r2 of
                   Inl err \<Rightarrow> (Inl err, resp, w3)
                 | Inr file \<Rightarrow>
                     (let (r3, w4) = os_File_WriteAt file (wq_Data req) (wq_Offset req) w3
                      in case r3 of
                           Inl err \<Rightarrow> (Inl err, resp, w4)
                         | Inr bytesWritten \<Rightarrow>
                             (let (r4, w5) = os_File_Close file w4
                              in case r4 of
                                   Inl err \<Rightarrow> (Inl err, resp, w5)
                                 | Inr u \<Rightarrow>
                                     (let resp' = resp\<lparr>wr_Size := wq_Offset req + bytesWritten\<rparr>;
                                          w6 = Handle ''Write:end''
                                                 [(''file'', VFile f), (''error'', VNil)] w5
                                      in (Inr (), resp', w6))))))"

subsection \<open>A small world for evaluating the operations\<close>

text \<open>
  The tree holds \<open>/tmp/src/a/b.txt\<close> with the bytes of \<open>hi\<close> and \<open>/b.txt\<close> with the bytes
  of \<open>hello\<close>; the working directory is the root; one callback is registered for every
  event and one for \<open>Mkdir:end\<close>.
\<close>

definition example_world :: world where
  "example_world =
     \<lparr>fs_root = Dir 493 (Some \<lparr>Ino = 1\<rparr>)
        [(''tmp'', Dir 493 (Some \<lparr>Ino = 2\<rparr>)
           [(''src'', Dir 493 (Some \<lparr>Ino = 3\<rparr>)
              [(''a'', Dir 493 (Some \<lparr>Ino = 4\<rparr>)
                 [(''b.txt'', File 420 (Some \<lparr>Ino = 5\<rparr>) [104, 105])])])]),
         (''b.txt'', File 420 (Some \<lparr>Ino = 6\<rparr>) [104, 101, 108, 108, 111])],
      cwd = ''/'',
      stat_fails = (\<lambda>name. None),
      hooks = [(''*'', [0]), (''Mkdir:end'', [1])],
      next_ino = 7,
      trace = []\<rparr>"

text \<open>The same world, where the stat of \<open>/tmp/src\<close> and below is refused for lack of permission.\<close>

definition example_denied :: world where
  "example_denied =
     example_world\<lparr>stat_fails :=
       (\<lambda>name. if take 8 name = ''/tmp/src''
               then Some (PathError ''stat'' name (Errno EACCES)) else None)\<rparr>"

definition zero_Attr :: Attr where
  "zero_Attr = \<lparr>Valid = 0, Inode = 0, Size = 0, Blocks = 0, Atime = 0, Mtime = 0, Ctime = 0,
                 Crtime = 0, Mode = 0, Nlink = 0, Uid = 0, Gid = 0, Rdev = 0, Flags = 0,
                 BlockSize = 0\<rparr>"

section \<open>Properties\<close>

subsection \<open>Dispatch and the trace\<close>

lemma Handle_eq:
  "Handle event data w =
     w\<lparr>trace := trace w @ [Dispatch event data (subscribers w event @ subscribers w ''*'')]\<rparr>"
  by (simp add: Handle_def Let_def)

lemma subscribers_trace [simp]: "subscribers (w\<lparr>trace := t\<rparr>) ev = subscribers w ev"
  by (simp add: subscribers_def)

lemma find_name_trace [simp]: "find_name (w\<lparr>trace := t\<rparr>) name = find_name w name"
  by (simp add: find_name_def)

lemma lookup_name_trace [simp]: "lookup_name (w\<lparr>trace := t\<rparr>) name = lookup_name w name"
  by (simp add: lookup_name_def)

lemma os_Stat_eq:
  "os_Stat name w =
     (case stat_fails w name of
        Some err \<Rightarrow> Inl err
      | None \<Rightarrow>
          (case lookup_name w name of
             Inl e \<Rightarrow> Inl (PathError ''stat'' name (Errno e))
           | Inr n \<Rightarrow> Inr (info (basename name) n)),
      w\<lparr>trace := trace w @ [Syscall (Stat name)]\<rparr>)"
  by (simp add: os_Stat_def record_call_def Let_def split: sum.splits option.splits)

lemma fst_os_Stat_trace [simp]: "fst (os_Stat name (w\<lparr>trace := t\<rparr>)) = fst (os_Stat name w)"
  by (simp add: os_Stat_eq split: option.splits)

subsection \<open>Setattr\<close>

text \<open>
  Claim C9. \<open>Setattr\<close> on a directory always succeeds and changes nothing but the trace, to
  which it adds exactly the dispatch of \<open>Setattr:start\<close> and of \<open>Setattr:end\<close>: the
  filesystem, the response and the rest of the world are as before, and no system call is
  made.
\<close>

theorem dir_Setattr_only_dispatches:
  "dir_Setattr d c req resp w =
     (Inr (), resp,
      w\<lparr>trace := trace w @
         [Dispatch ''Setattr:start''
            [(''directory'', VDir d), (''context'', VCtx c),
             (''request'', VSetattrReq req), (''response'', VSetattrResp resp)]
            (subscribers w ''Setattr:start'' @ subscribers w ''*''),
          Dispatch ''Setattr:end''
            [(''directory'', VDir d), (''context'', VCtx c),
             (''request'', VSetattrReq req), (''response'', VSetattrResp resp)]
            (subscribers w ''Setattr:end'' @ subscribers w ''*'')]\<rparr>)"
  by (simp add: dir_Setattr_def Handle_eq)

subsection \<open>Attributes of a directory\<close>

text \<open>
  Claim C10. When the path of a directory node stats successfully, \<open>Attr\<close> assigns the
  inode number and the mode of the stat result to \<open>Inode\<close> and \<open>Mode\<close> (or, when the
  platform metadata is missing, fails and assigns nothing), and every other field of the
  attribute structure, \<open>Size\<close> included, keeps its incoming value.
\<close>

theorem dir_Attr_frame:
  assumes "fst (os_Stat (dir_path d) w) = Inr fileInfo"
      and "dir_Attr d c a w = (r, a', w')"
  shows "(case fi_Sys fileInfo of
            Some stat \<Rightarrow> r = Inr () \<and> a' = a\<lparr>Inode := Ino stat, Mode := fi_Mode fileInfo\<rparr>
          | None \<Rightarrow> r = Inl (Errno ENOENT) \<and> a' = a)
         \<and> Valid a' = Valid a \<and> Size a' = Size a \<and> Blocks a' = Blocks a
         \<and> Atime a' = Atime a \<and> Mtime a' = Mtime a \<and> Ctime a' = Ctime a \<and> Crtime a' = Crtime a
         \<and> Nlink a' = Nlink a \<and> Uid a' = Uid a \<and> Gid a' = Gid a \<and> Rdev a' = Rdev a
         \<and> Flags a' = Flags a \<and> BlockSize a' = BlockSize a"
  using assms
  by (auto simp add: dir_Attr_def os_Stat_eq Handle_eq Let_def split: sum.splits option.splits)

theorem dir_Attr_frame_witness:
  "fst (os_Stat ''/tmp/src'' example_world) =
     Inr \<lparr>fi_Name = ''src'', fi_Size = 0, fi_Mode = 2147484141, fi_Sys = Some \<lparr>Ino = 3\<rparr>\<rparr>
   \<and> fst (dir_Attr \<lparr>dir_path = ''/tmp/src''\<rparr> (Ctx 0) (zero_Attr\<lparr>Size := 99\<rparr>) example_world) = Inr ()
   \<and> fst (snd (dir_Attr \<lparr>dir_path = ''/tmp/src''\<rparr> (Ctx 0) (zero_Attr\<lparr>Size := 99\<rparr>) example_world))
       = zero_Attr\<lparr>Size := 99, Inode := 3, Mode := 2147484141\<rparr>"
proof -
  have h1: "fst (os_Stat (dir_path \<lparr>dir_path = ''/tmp/src''\<rparr>) example_world) =
     Inr \<lparr>fi_Name = ''src'', fi_Size = 0, fi_Mode = 2147484141, fi_Sys = Some \<lparr>Ino = 3\<rparr>\<rparr>"
    by code_simp
  have h2: "dir_Attr \<lparr>dir_path = ''/tmp/src''\<rparr> (Ctx 0) (zero_Attr\<lparr>Size := 99\<rparr>) example_world
      = (fst (dir_Attr \<lparr>dir_path = ''/tmp/src''\<rparr> (Ctx 0) (zero_Attr\<lparr>Size := 99\<rparr>) example_world),
         fst (snd (dir_Attr \<lparr>dir_path = ''/tmp/src''\<rparr> (Ctx 0) (zero_Attr\<lparr>Size := 99\<rparr>) example_world)),
         snd (snd (dir_Attr \<lparr>dir_path = ''/tmp/src''\<rparr> (Ctx 0) (zero_Attr\<lparr>Size := 99\<rparr>) example_world)))"
    by simp
  from dir_Attr_frame [OF h1 h2] h1 show ?thesis by simp
qed

subsection \<open>Stat failures\<close>

text \<open>
  The stat can fail with any error whatever: for every name and every error there is a
  world, differing from a given one only in \<open>stat_fails\<close>, in which the stat of the name
  fails with that error.
\<close>

lemma os_Stat_any_error:
  "fst (os_Stat name (w\<lparr>stat_fails := (stat_fails w)(name \<mapsto> err)\<rparr>)) = Inl err"
  by (simp add: os_Stat_eq)

text \<open>
  Claim C8. Whenever the stat of the node's path fails in \<open>Attr\<close> (of a directory or of a
  file), or the stat of the joined child path fails in \<open>Lookup\<close>, the operation returns
  \<open>ENOENT\<close>, whatever error the stat itself returned: a missing entry, a file in the place
  of a directory, a refused permission or any other.
\<close>

theorem stat_failure_is_ENOENT:
  "(fst (os_Stat (dir_path d) w) = Inl e \<longrightarrow> fst (dir_Attr d c a w) = Inl (Errno ENOENT))
   \<and> (fst (os_Stat (file_path f) w) = Inl e \<longrightarrow> fst (file_Attr f c a w) = Inl (Errno ENOENT))
   \<and> (fst (os_Stat (Join [dir_path d, lq_Name req]) w) = Inl e \<longrightarrow>
        fst (dir_Lookup d c req resp w) = Inl (Errno ENOENT))"
  by (auto simp add: dir_Attr_def file_Attr_def dir_Lookup_def os_Stat_eq Handle_eq Let_def
           split: sum.splits option.splits prod.splits)

theorem stat_failure_is_ENOENT_witness:
  "fst (os_Stat ''/tmp/src'' example_denied) = Inl (PathError ''stat'' ''/tmp/src'' (Errno EACCES))
   \<and> fst (dir_Attr \<lparr>dir_path = ''/tmp/src''\<rparr> (Ctx 0) zero_Attr example_denied) = Inl (Errno ENOENT)
   \<and> fst (os_Stat ''/b.txt/'' example_world) = Inl (PathError ''stat'' ''/b.txt/'' (Errno ENOTDIR))
   \<and> fst (file_Attr \<lparr>file_path = ''/b.txt/''\<rparr> (Ctx 0) zero_Attr example_world) = Inl (Errno ENOENT)
   \<and> fst (os_Stat (Join [''/tmp/src'', ''a'']) example_denied)
        = Inl (PathError ''stat'' ''/tmp/src/a'' (Errno EACCES))
   \<and> fst (dir_Lookup \<lparr>dir_path = ''/tmp/src''\<rparr> (Ctx 0) \<lparr>lq_Name = ''a''\<rparr> \<lparr>lr_Attr = zero_Attr\<rparr> example_denied)
        = Inl (Errno ENOENT)
   \<and> fst (os_Stat ''/tmp/nope/..'' example_world) = Inl (PathError ''stat'' ''/tmp/nope/..'' (Errno ENOENT))
   \<and> fst (dir_Attr \<lparr>dir_path = ''/tmp/nope/..''\<rparr> (Ctx 0) zero_Attr example_world) = Inl (Errno ENOENT)"
proof -
  have h1: "fst (os_Stat (dir_path \<lparr>dir_path = ''/tmp/src''\<rparr>) example_denied)
      = Inl (PathError ''stat'' ''/tmp/src'' (Errno EACCES))"
    by code_simp
  have h2: "fst (os_Stat (file_path \<lparr>file_path = ''/b.txt/''\<rparr>) example_world)
      = Inl (PathError ''stat'' ''/b.txt/'' (Errno ENOTDIR))"
    by code_simp
  have h3: "fst (os_Stat (Join [dir_path \<lparr>dir_path = ''/tmp/src''\<rparr>, lq_Name \<lparr>lq_Name = ''a''\<rparr>]) example_denied)
      = Inl (PathError ''stat'' ''/tmp/src/a'' (Errno EACCES))"
    by code_simp
  have h4: "fst (os_Stat (dir_path \<lparr>dir_path = ''/tmp/nope/..''\<rparr>) example_world)
      = Inl (PathError ''stat'' ''/tmp/nope/..'' (Errno ENOENT))"
    by code_simp
  have j: "Join [''/tmp/src'', ''a''] = ''/tmp/src/a''" by code_simp
  from h1 stat_failure_is_ENOENT [of "\<lparr>dir_path = ''/tmp/src''\<rparr>" example_denied _ "Ctx 0" zero_Attr]
  have c1: "fst (dir_Attr \<lparr>dir_path = ''/tmp/src''\<rparr> (Ctx 0) zero_Attr example_denied) = Inl (Errno ENOENT)"
    by blast
  from h2 stat_failure_is_ENOENT [of _ example_world _ "Ctx 0" zero_Attr "\<lparr>file_path = ''/b.txt/''\<rparr>"]
  have c2: "fst (file_Attr \<lparr>file_path = ''/b.txt/''\<rparr> (Ctx 0) zero_Attr example_world) = Inl (Errno ENOENT)"
    by blast
  from h3 stat_failure_is_ENOENT [of "\<lparr>dir_path = ''/tmp/src''\<rparr>" example_denied _ "Ctx 0" _ _
        "\<lparr>lq_Name = ''a''\<rparr>" "\<lparr>lr_Attr = zero_Attr\<rparr>"]
  have c3: "fst (dir_Lookup \<lparr>dir_path = ''/tmp/src''\<rparr> (Ctx 0) \<lparr>lq_Name = ''a''\<rparr> \<lparr>lr_Attr = zero_Attr\<rparr> example_denied)
        = Inl (Errno ENOENT)"
    by blast
  from h4 stat_failure_is_ENOENT [of "\<lparr>dir_path = ''/tmp/nope/..''\<rparr>" example_world _ "Ctx 0" zero_Attr]
  have c4: "fst (dir_Attr \<lparr>dir_path = ''/tmp/nope/..''\<rparr> (Ctx 0) zero_Attr example_world) = Inl (Errno ENOENT)"
    by blast
  from h1 h2 h3 h4 c1 c2 c3 c4 j show ?thesis by simp
qed

subsection \<open>The filesystem tree\<close>

inductive_cases grown_DirE: "grown (Dir m s es) t'"

lemma grown_refl: "grown t t"
proof (induction t)
  case (File m s d)
  show ?case by (rule grown_File)
next
  case (Dir m s es)
  show ?case
  proof (rule grown_Dir)
    fix c n assume "map_of es c = Some n"
    then have "(c, n) \<in> set es" by (rule map_of_SomeD)
    then have "grown n n" by (rule Dir.IH) simp
    with \<open>map_of es c = Some n\<close> show "\<exists>n'. map_of es c = Some n' \<and> grown n n'" by blast
  qed
qed

lemma grown_resolve:
  "grown t t' \<Longrightarrow> resolve t q = Inr n \<Longrightarrow> \<exists>n'. resolve t' q = Inr n' \<and> grown n n'"
proof (induction q arbitrary: t t')
  case Nil
  then show ?case by simp
next
  case (Cons c cs)
  from Cons.prems(2) obtain m s es ch where t: "t = Dir m s es" and ch: "map_of es c = Some ch"
    and r: "resolve ch cs = Inr n"
    by (cases t) (auto split: option.splits)
  from Cons.prems(1) t obtain m' s' es' where t': "t' = Dir m' s' es'"
    and names: "\<And>c n. map_of es c = Some n \<Longrightarrow> \<exists>n'. map_of es' c = Some n' \<and> grown n n'"
    by (auto elim: grown_DirE)
  from names [OF ch] obtain ch' where ch': "map_of es' c = Some ch'" and g: "grown ch ch'" by blast
  from Cons.IH [OF g r] t' ch' show ?case by simp
qed

lemma grown_walk:
  "grown root root' \<Longrightarrow> walk root cur cs = Inr p \<Longrightarrow> walk root' cur cs = Inr p"
proof (induction cs arbitrary: cur)
  case Nil
  then show ?case by simp
next
  case (Cons c cs)
  from Cons.prems(2) obtain m s es where here: "resolve root cur = Inr (Dir m s es)"
    by (auto split: sum.splits inode.splits)
  from grown_resolve [OF Cons.prems(1) here] obtain m' s' es' where
    here': "resolve root' cur = Inr (Dir m' s' es')"
    and names: "\<And>c n. map_of es c = Some n \<Longrightarrow> \<exists>n'. map_of es' c = Some n' \<and> grown n n'"
    by (auto elim: grown_DirE)
  show ?case
  proof (cases "c = [] \<or> c = ''.'' \<or> c = ''..''")
    case True
    with Cons.prems(2) here here' Cons.IH [OF Cons.prems(1)] show ?thesis
      by (auto split: if_splits)
  next
    case False
    with Cons.prems(2) here obtain n where n: "map_of es c = Some n"
      and rest: "walk root (cur @ [c]) cs = Inr p"
      by (auto split: option.splits)
    from names [OF n] obtain n' where "map_of es' c = Some n'" by blast
    with False here' Cons.IH [OF Cons.prems(1) rest] show ?thesis by simp
  qed
qed


lemma grown_update:
  assumes "map_of es c = Some ch" and "grown ch ch'"
  shows "grown (Dir m s es) (Dir m s (AList.update c ch' es))"
proof (rule grown_Dir)
  fix x n assume "map_of es x = Some n"
  with assms grown_refl [of n]
  show "\<exists>n'. map_of (AList.update c ch' es) x = Some n' \<and> grown n n'"
    by (cases "x = c") (auto simp: update_conv')
qed

lemma grown_put:
  "resolve t p = Inr old \<Longrightarrow> grown old new \<Longrightarrow> grown t (put t p new)"
proof (induction t p rule: resolve.induct)
  case (1 n)
  then show ?case by simp
next
  case (2 m s d c cs)
  then show ?case by simp
next
  case (3 m s es c cs)
  from 3(2) obtain ch where ch: "map_of es c = Some ch" and r: "resolve ch cs = Inr old"
    by (auto split: option.splits)
  from 3(1) [OF ch r 3(3)] ch show ?case
    by (simp add: grown_update)
qed


lemma resolve_put_same: "resolve n p = Inr old \<Longrightarrow> resolve (put n p new) p = Inr new"
  by (induction n p arbitrary: old rule: resolve.induct) (auto simp: update_conv' split: option.splits)



lemma find_in_put_File:
  assumes "find_in root cw name = Inr (p, File m s d)"
  shows "find_in (put root p (File m' s' d')) cw name = Inr (p, File m' s' d')"
proof -
  from assms have ne: "name \<noteq> []" and w: "walk root [] (absolute cw name) = Inr p"
    and r: "resolve root p = Inr (File m s d)"
    by (auto simp: find_in_def split: if_splits sum.splits)
  have "grown root (put root p (File m' s' d'))"
    using r by (rule grown_put) (rule grown_File)
  then have "walk (put root p (File m' s' d')) [] (absolute cw name) = Inr p"
    using w by (rule grown_walk)
  with ne resolve_put_same [OF r] show ?thesis by (simp add: find_in_def)
qed


lemma find_name_Inr:
  "find_name w name = Inr (p, n) \<Longrightarrow> lookup_name w name = Inr n"
  by (simp add: lookup_name_def)

subsection \<open>Write\<close>

lemma sint_add_len:
  fixes off :: "64 word"
  assumes "0 \<le> sint off" "sint off + int n < 2 ^ 63"
  shows "sint (off + of_nat n) = sint off + int n"
proof -
  have self: "signed_take_bit 63 (sint off) = sint off"
    using sint_ge [of off] sint_lt [of off] by (intro signed_take_bit_int_eq_self) auto
  have "sint (off + of_nat n) = signed_take_bit 63 (sint off + sint (of_nat n :: 64 word))"
    by (simp add: sint_word_ariths)
  also have "\<dots> = signed_take_bit 63 (sint off + signed_take_bit 63 (int n))"
    by (simp add: signed_of_nat)
  also have "\<dots> = signed_take_bit 63 (sint off + int n)"
    using self signed_take_bit_add [of 63 "sint off" "int n"] by simp
  also have "\<dots> = sint off + int n"
    using assms by (intro signed_take_bit_int_eq_self) auto
  finally show ?thesis .
qed

lemma write_access: "has_flag (x OR O_WRONLY) (O_WRONLY OR O_RDWR)"
proof -
  have "odd ((x OR 1) AND (3 :: 64 word))"
    by (simp add: even_and_iff even_or_iff)
  then have "(x OR 1) AND (3 :: 64 word) \<noteq> 0"
    by auto
  then show ?thesis
    by (simp add: has_flag_def O_WRONLY_def O_RDWR_def)
qed

lemma subscribers_hooks: "hooks w' = hooks w \<Longrightarrow> subscribers w' ev = subscribers w ev"
  by (simp add: subscribers_def)

lemma find_name_fields:
  "fs_root w' = fs_root w \<Longrightarrow> cwd w' = cwd w \<Longrightarrow> find_name w' name = find_name w name"
  by (simp add: find_name_def)

text \<open>Opening an existing file: the handle, and the file as it is afterwards.\<close>

lemma os_OpenFile_File:
  assumes "find_name w name = Inr (p, File m s d)"
      and "os_OpenFile name flag perm w = (Inr h, w1)"
  shows "h = \<lparr>of_name = name, of_path = p, of_flag = flag\<rparr>"
    and "cwd w1 = cwd w" and "hooks w1 = hooks w"
    and "trace w1 = trace w @ [Syscall (OpenFile name flag perm)]"
    and "find_name w1 name = Inr (p, File m s (if has_flag flag O_TRUNC then [] else d))"
  using assms
  by (auto simp: os_OpenFile_def record_call_def Let_def find_name_def find_in_put_File
           split: if_splits)

text \<open>A \<open>WriteAt\<close> that succeeds on a handle of a file: the count, and the file afterwards.\<close>

lemma os_File_WriteAt_File:
  assumes "find_name w name = Inr (p, File m s d)"
      and "of_path h = p"
      and "os_File_WriteAt h b off w = (Inr n, w1)"
  shows "n = of_nat (length b)"
    and "0 \<le> sint off" and "sint off + int (length b) < 2 ^ 63"
    and "cwd w1 = cwd w" and "hooks w1 = hooks w"
    and "trace w1 = trace w @ [Syscall (WriteAt h b off)]"
    and "find_name w1 name = Inr (p, File m s (write_at d (unat off) b))"
proof -
  from assms(1) have r: "resolve (fs_root w) p = Inr (File m s d)"
    by (auto simp: find_name_def find_in_def split: if_splits sum.splits)
  have lt: "sint off < 2 ^ 63" using sint_lt [of off] by simp
  from assms(2,3) r lt show "n = of_nat (length b)" and "0 \<le> sint off"
    and "sint off + int (length b) < 2 ^ 63"
    and "cwd w1 = cwd w" and "hooks w1 = hooks w"
    and "trace w1 = trace w @ [Syscall (WriteAt h b off)]"
    by (auto simp: os_File_WriteAt_def record_call_def Let_def split: if_splits)
  from assms r show "find_name w1 name = Inr (p, File m s (write_at d (unat off) b))"
    by (auto simp: os_File_WriteAt_def record_call_def Let_def find_name_def find_in_put_File
                   write_at_def split: if_splits)
qed

text \<open>
  The steps of a successful \<open>Write\<close>: the stat, the open, the \<open>WriteAt\<close> and the close
  have all succeeded, one after the other.
\<close>

lemma file_Write_steps:
  assumes "file_Write f c req resp w = (Inr (), resp', w')"
  obtains fInfo w2 h w3 n w4 w5 where
    "os_Stat (file_path f)
       (Handle ''Write:start''
          [(''file'', VFile f), (''context'', VCtx c),
           (''request'', VWriteReq req), (''response'', VWriteResp resp)] w) = (Inr fInfo, w2)"
    "os_OpenFile (file_path f) (ucast (wq_Flags req) OR O_WRONLY) (fi_Mode fInfo) w2 = (Inr h, w3)"
    "os_File_WriteAt h (wq_Data req) (wq_Offset req) w3 = (Inr n, w4)"
    "os_File_Close h w4 = (Inr (), w5)"
    "resp' = resp\<lparr>wr_Size := wq_Offset req + n\<rparr>"
    "w' = Handle ''Write:end'' [(''file'', VFile f), (''error'', VNil)] w5"
  using assms
  by (auto simp: file_Write_def Let_def split: prod.splits sum.splits)

text \<open>
  What a successful \<open>Write\<close> has done: the calls it made, the bytes the file holds
  afterwards and the size it reports.
\<close>

lemma file_Write_effect:
  assumes "file_Write f c req resp w = (Inr (), resp', w')"
  shows "\<exists>fInfo p m s d.
       fst (os_Stat (file_path f) w) = Inr fInfo
     \<and> find_name w (file_path f) = Inr (p, File m s d)
     \<and> trace w' = trace w @
         [Dispatch ''Write:start''
            [(''file'', VFile f), (''context'', VCtx c),
             (''request'', VWriteReq req), (''response'', VWriteResp resp)]
            (subscribers w ''Write:start'' @ subscribers w ''*''),
          Syscall (Stat (file_path f)),
          Syscall (OpenFile (file_path f) (ucast (wq_Flags req) OR O_WRONLY) (fi_Mode fInfo)),
          Syscall (WriteAt \<lparr>of_name = file_path f, of_path = p,
                             of_flag = ucast (wq_Flags req) OR O_WRONLY\<rparr>
                     (wq_Data req) (wq_Offset req)),
          Syscall (Close \<lparr>of_name = file_path f, of_path = p,
                           of_flag = ucast (wq_Flags req) OR O_WRONLY\<rparr>),
          Dispatch ''Write:end'' [(''file'', VFile f), (''error'', VNil)]
            (subscribers w ''Write:end'' @ subscribers w ''*'')]
     \<and> find_name w' (file_path f) =
          Inr (p, File m s (write_at (if has_flag (ucast (wq_Flags req) OR O_WRONLY) O_TRUNC then [] else d)
                              (unat (wq_Offset req)) (wq_Data req)))
     \<and> resp' = resp\<lparr>wr_Size := wq_Offset req + of_nat (length (wq_Data req))\<rparr>
     \<and> 0 \<le> sint (wq_Offset req)
     \<and> sint (wq_Offset req) + int (length (wq_Data req)) < 2 ^ 63"
proof -
  let ?name = "file_path f"
  let ?flag = "ucast (wq_Flags req) OR O_WRONLY :: 64 word"
  let ?w1 = "Handle ''Write:start''
          [(''file'', VFile f), (''context'', VCtx c),
           (''request'', VWriteReq req), (''response'', VWriteResp resp)] w"
  from assms obtain fInfo w2 h w3 n w4 w5 where
    st: "os_Stat ?name ?w1 = (Inr fInfo, w2)" and
    op: "os_OpenFile ?name ?flag (fi_Mode fInfo) w2 = (Inr h, w3)" and
    wa: "os_File_WriteAt h (wq_Data req) (wq_Offset req) w3 = (Inr n, w4)" and
    cl: "os_File_Close h w4 = (Inr (), w5)" and
    resp': "resp' = resp\<lparr>wr_Size := wq_Offset req + n\<rparr>" and
    w': "w' = Handle ''Write:end'' [(''file'', VFile f), (''error'', VNil)] w5"
    by (rule file_Write_steps)
  from st have stat: "fst (os_Stat ?name w) = Inr fInfo"
    and w2: "w2 = w\<lparr>trace := trace ?w1 @ [Syscall (Stat ?name)]\<rparr>"
    and found: "\<exists>p n. find_name w ?name = Inr (p, n)"
    by (auto simp: os_Stat_eq Handle_eq lookup_name_def split: option.splits sum.splits)
  from found obtain p node where f0: "find_name w ?name = Inr (p, node)" by blast
  with w2 have f2: "find_name w2 ?name = Inr (p, node)" by simp
  from op f2 obtain m s d where node: "node = File m s d"
    using write_access [of "ucast (wq_Flags req)"]
    by (cases node) (auto simp: os_OpenFile_def record_call_def Let_def split: if_splits)
  note o = os_OpenFile_File [OF f2 [unfolded node] op]
  note a = os_File_WriteAt_File [OF o(5) _ wa]
  have hp: "of_path h = p" using o(1) by simp
  from cl have w5: "w5 = w4\<lparr>trace := trace w4 @ [Syscall (Close h)]\<rparr>"
    by (simp add: os_File_Close_def record_call_def)
  have hooks5: "hooks w5 = hooks w"
    using w5 a(5) [OF hp] o(3) w2 by simp
  have tr: "trace w5 = trace w @
         [Dispatch ''Write:start''
            [(''file'', VFile f), (''context'', VCtx c),
             (''request'', VWriteReq req), (''response'', VWriteResp resp)]
            (subscribers w ''Write:start'' @ subscribers w ''*''),
          Syscall (Stat ?name),
          Syscall (OpenFile ?name ?flag (fi_Mode fInfo)),
          Syscall (WriteAt h (wq_Data req) (wq_Offset req)),
          Syscall (Close h)]"
    using w5 a(6) [OF hp] o(4) w2 by (simp add: Handle_eq)
  have f5: "find_name w' ?name =
      Inr (p, File m s (write_at (if has_flag ?flag O_TRUNC then [] else d)
                          (unat (wq_Offset req)) (wq_Data req)))"
    using a(7) [OF hp] w5 w' by (simp add: Handle_eq)
  have "trace w' = trace w5 @
      [Dispatch ''Write:end'' [(''file'', VFile f), (''error'', VNil)]
         (subscribers w ''Write:end'' @ subscribers w ''*'')]"
    using w' subscribers_hooks [OF hooks5] by (simp add: Handle_eq)
  with tr o(1) stat f0 node f5 resp' a(1) [OF hp] a(2) [OF hp] a(3) [OF hp]
  show ?thesis by auto
qed


text \<open>
  Claim C7. A successful \<open>Write\<close> has made exactly these calls, in this order: the dispatch
  of \<open>Write:start\<close>, a stat of the file's path, an open of that path with the request's
  flags OR'd with \<open>O_WRONLY\<close> and the mode the stat returned, a \<open>WriteAt\<close> of the request's
  data at the request's offset, the close of that handle, and the dispatch of \<open>Write:end\<close>.
  The file then holds the data at that offset (and is as the open left it when the data is
  empty), and the response size is the offset plus the number of bytes written: the 64-bit
  sum, which on success is the mathematical sum.
\<close>

theorem file_Write_success:
  assumes "file_Write f c req resp w = (Inr (), resp', w')"
  shows "\<exists>fInfo p m s d.
       fst (os_Stat (file_path f) w) = Inr fInfo
     \<and> find_name w (file_path f) = Inr (p, File m s d)
     \<and> lookup_name w (file_path f) = Inr (File m s d)
     \<and> trace w' = trace w @
         [Dispatch ''Write:start''
            [(''file'', VFile f), (''context'', VCtx c),
             (''request'', VWriteReq req), (''response'', VWriteResp resp)]
            (subscribers w ''Write:start'' @ subscribers w ''*''),
          Syscall (Stat (file_path f)),
          Syscall (OpenFile (file_path f) (ucast (wq_Flags req) OR O_WRONLY) (fi_Mode fInfo)),
          Syscall (WriteAt \<lparr>of_name = file_path f, of_path = p,
                             of_flag = ucast (wq_Flags req) OR O_WRONLY\<rparr>
                     (wq_Data req) (wq_Offset req)),
          Syscall (Close \<lparr>of_name = file_path f, of_path = p,
                           of_flag = ucast (wq_Flags req) OR O_WRONLY\<rparr>),
          Dispatch ''Write:end'' [(''file'', VFile f), (''error'', VNil)]
            (subscribers w ''Write:end'' @ subscribers w ''*'')]
     \<and> lookup_name w' (file_path f) =
          Inr (File m s (write_at (if has_flag (ucast (wq_Flags req) OR O_WRONLY) O_TRUNC then [] else d)
                           (unat (wq_Offset req)) (wq_Data req)))
     \<and> resp' = resp\<lparr>wr_Size := wq_Offset req + of_nat (length (wq_Data req))\<rparr>
     \<and> 0 \<le> sint (wq_Offset req)
     \<and> sint (wr_Size resp') = sint (wq_Offset req) + int (length (wq_Data req))"
proof -
  from file_Write_effect [OF assms] obtain fInfo p m s d where
    e: "fst (os_Stat (file_path f) w) = Inr fInfo"
       "find_name w (file_path f) = Inr (p, File m s d)"
       "trace w' = trace w @
         [Dispatch ''Write:start''
            [(''file'', VFile f), (''context'', VCtx c),
             (''request'', VWriteReq req), (''response'', VWriteResp resp)]
            (subscribers w ''Write:start'' @ subscribers w ''*''),
          Syscall (Stat (file_path f)),
          Syscall (OpenFile (file_path f) (ucast (wq_Flags req) OR O_WRONLY) (fi_Mode fInfo)),
          Syscall (WriteAt \<lparr>of_name = file_path f, of_path = p,
                             of_flag = ucast (wq_Flags req) OR O_WRONLY\<rparr>
                     (wq_Data req) (wq_Offset req)),
          Syscall (Close \<lparr>of_name = file_path f, of_path = p,
                           of_flag = ucast (wq_Flags req) OR O_WRONLY\<rparr>),
          Dispatch ''Write:end'' [(''file'', VFile f), (''error'', VNil)]
            (subscribers w ''Write:end'' @ subscribers w ''*'')]"
       "find_name w' (file_path f) =
          Inr (p, File m s (write_at (if has_flag (ucast (wq_Flags req) OR O_WRONLY) O_TRUNC then [] else d)
                              (unat (wq_Offset req)) (wq_Data req)))"
       "resp' = resp\<lparr>wr_Size := wq_Offset req + of_nat (length (wq_Data req))\<rparr>"
       "0 \<le> sint (wq_Offset req)"
       "sint (wq_Offset req) + int (length (wq_Data req)) < 2 ^ 63"
    by blast
  from e(5-7) have "sint (wr_Size resp') = sint (wq_Offset req) + int (length (wq_Data req))"
    by (simp add: sint_add_len)
  with e show ?thesis
    by (intro exI [of _ fInfo] exI [of _ p] exI [of _ m] exI [of _ s] exI [of _ d])
       (simp add: lookup_name_def)
qed

theorem file_Write_success_witness:
  "fst (file_Write \<lparr>file_path = ''/tmp/src/a/b.txt''\<rparr> (Ctx 0)
          \<lparr>wq_Flags = 0, wq_Data = [120], wq_Offset = 1\<rparr> \<lparr>wr_Size = 0\<rparr> example_world) = Inr ()
   \<and> fst (snd (file_Write \<lparr>file_path = ''/tmp/src/a/b.txt''\<rparr> (Ctx 0)
          \<lparr>wq_Flags = 0, wq_Data = [120], wq_Offset = 1\<rparr> \<lparr>wr_Size = 0\<rparr> example_world)) = \<lparr>wr_Size = 2\<rparr>
   \<and> lookup_name (snd (snd (file_Write \<lparr>file_path = ''/tmp/src/a/b.txt''\<rparr> (Ctx 0)
          \<lparr>wq_Flags = 0, wq_Data = [120], wq_Offset = 1\<rparr> \<lparr>wr_Size = 0\<rparr> example_world)))
        ''/tmp/src/a/b.txt'' = Inr (File 420 (Some \<lparr>Ino = 5\<rparr>) [104, 120])
   \<and> fst (file_Write \<lparr>file_path = ''/b.txt''\<rparr> (Ctx 0)
          \<lparr>wq_Flags = 0, wq_Data = [], wq_Offset = 7\<rparr> \<lparr>wr_Size = 0\<rparr> example_world) = Inr ()
   \<and> fst (snd (file_Write \<lparr>file_path = ''/b.txt''\<rparr> (Ctx 0)
          \<lparr>wq_Flags = 0, wq_Data = [], wq_Offset = 7\<rparr> \<lparr>wr_Size = 0\<rparr> example_world)) = \<lparr>wr_Size = 7\<rparr>
   \<and> lookup_name (snd (snd (file_Write \<lparr>file_path = ''/b.txt''\<rparr> (Ctx 0)
          \<lparr>wq_Flags = 0, wq_Data = [], wq_Offset = 7\<rparr> \<lparr>wr_Size = 0\<rparr> example_world)))
        ''/b.txt'' = Inr (File 420 (Some \<lparr>Ino = 6\<rparr>) [104, 101, 108, 108, 111])"
proof -
  let ?X = "file_Write \<lparr>file_path = ''/tmp/src/a/b.txt''\<rparr> (Ctx 0)
          \<lparr>wq_Flags = 0, wq_Data = [120], wq_Offset = 1\<rparr> \<lparr>wr_Size = 0\<rparr> example_world"
  let ?Y = "file_Write \<lparr>file_path = ''/b.txt''\<rparr> (Ctx 0)
          \<lparr>wq_Flags = 0, wq_Data = [], wq_Offset = 7\<rparr> \<lparr>wr_Size = 0\<rparr> example_world"
  have okX: "fst ?X = Inr ()" by code_simp
  then have hX: "?X = (Inr (), fst (snd ?X), snd (snd ?X))" by (simp add: prod_eq_iff)
  have okY: "fst ?Y = Inr ()" by code_simp
  then have hY: "?Y = (Inr (), fst (snd ?Y), snd (snd ?Y))" by (simp add: prod_eq_iff)
  have contentX: "lookup_name (snd (snd ?X)) ''/tmp/src/a/b.txt'' = Inr (File 420 (Some \<lparr>Ino = 5\<rparr>) [104, 120])"
    by code_simp
  have contentY: "lookup_name (snd (snd ?Y)) ''/b.txt''
      = Inr (File 420 (Some \<lparr>Ino = 6\<rparr>) [104, 101, 108, 108, 111])"
    by code_simp
  from file_Write_success [OF hX]
  have sX: "fst (snd ?X) = \<lparr>wr_Size = 0\<rparr>\<lparr>wr_Size := 1 + of_nat (length [120 :: byte])\<rparr>"
    by auto
  from file_Write_success [OF hY]
  have sY: "fst (snd ?Y) = \<lparr>wr_Size = 0\<rparr>\<lparr>wr_Size := 7 + of_nat (length ([] :: byte list))\<rparr>"
    by auto
  from okX okY contentX contentY sX sY show ?thesis by simp
qed

subsection \<open>ReadDirAll\<close>

text \<open>
  Whatever the directory holds, a listing that succeeds returns one entry per entry of
  \<open>ioutil.ReadDir\<close>, in the same order, carrying the name only: the inode number and the
  type assigned after the copy into \<open>toReturn\<close> are lost.
\<close>

lemma ReadDirAll_loop_result:
  "ReadDirAll_loop entries i toReturn = Inr out \<Longrightarrow> i + length entries \<le> length toReturn \<Longrightarrow>
   out = take i toReturn
         @ map (\<lambda>e. \<lparr>de_Inode = 0, de_Type = DT_Unknown, de_Name = fi_Name e\<rparr>) entries
         @ drop (i + length entries) toReturn"
proof (induction entries arbitrary: i toReturn)
  case Nil
  then show ?case by simp
next
  case (Cons entry rest)
  from Cons.prems obtain stat where "fi_Sys entry = Some stat"
    and rec: "ReadDirAll_loop rest (Suc i)
                (toReturn[i := \<lparr>de_Inode = 0, de_Type = DT_Unknown, de_Name = fi_Name entry\<rparr>]) = Inr out"
    by (auto simp: Let_def split: option.splits)
  from Cons.IH [OF rec] Cons.prems(2) show ?case
    by (simp add: take_Suc_conv_app_nth upd_conv_take_nth_drop add.commute)
qed

lemma dir_ReadDirAll_result:
  assumes "fst (dir_ReadDirAll d c w) = Inr out"
  shows "\<exists>entries. fst (ioutil_ReadDir (dir_path d) w) = Inr entries
     \<and> out = map (\<lambda>e. \<lparr>de_Inode = 0, de_Type = DT_Unknown, de_Name = fi_Name e\<rparr>) entries"
  using assms
  apply (simp add: dir_ReadDirAll_def Handle_eq ioutil_ReadDir_def record_call_def Let_def split: prod.splits sum.splits inode.splits)
  apply (auto dest!: ReadDirAll_loop_result)
  done

text \<open>
  Claim C1 says that each returned entry carries the child's name, its inode number and a
  type tag of directory or file. On the example world \<open>/tmp/src\<close> lists successfully with
  its one child \<open>a\<close>, a directory with inode number 4; \<open>ReadDirAll\<close> returns one entry, named
  \<open>a\<close>, whose inode number is 0 and whose type is \<open>DT_Unknown\<close>.
\<close>

theorem dir_ReadDirAll_loses_inode_and_type:
  "fst (ioutil_ReadDir ''/tmp/src'' example_world) =
     Inr [\<lparr>fi_Name = ''a'', fi_Size = 0, fi_Mode = 2147484141, fi_Sys = Some \<lparr>Ino = 4\<rparr>\<rparr>]
   \<and> IsDir \<lparr>fi_Name = ''a'', fi_Size = 0, fi_Mode = 2147484141, fi_Sys = Some \<lparr>Ino = 4\<rparr>\<rparr>
   \<and> fst (dir_ReadDirAll \<lparr>dir_path = ''/tmp/src''\<rparr> (Ctx 0) example_world) =
       Inr [\<lparr>de_Inode = 0, de_Type = DT_Unknown, de_Name = ''a''\<rparr>]"
  by code_simp

subsection \<open>Remove\<close>

text \<open>\<open>Remove\<close> always hands \<open>req.Name\<close> itself to \<open>os.Remove\<close>.\<close>

lemma dir_Remove_calls:
  "trace (snd (dir_Remove d c req w)) = trace w @
     [Dispatch ''Remove:start''
        [(''directory'', VDir d), (''context'', VCtx c), (''request'', VRemoveReq req)]
        (subscribers w ''Remove:start'' @ subscribers w ''*''),
      Syscall (Remove (rq_Name req)),
      Dispatch ''Remove:end''
        [(''directory'', VDir d), (''error'', verr (fst (dir_Remove d c req w)))]
        (subscribers w ''Remove:end'' @ subscribers w ''*'')]"
  by (auto simp add: dir_Remove_def os_Remove_def Handle_eq record_call_def Let_def subscribers_def
        split: prod.splits sum.splits inode.splits if_splits)

text \<open>
  Claim C2 says that \<open>Remove\<close> operates on the directory's path joined with the name. On
  the example world, with the working directory at the root, \<open>Remove\<close> of \<open>b.txt\<close> in the
  directory \<open>/tmp/src/a\<close> calls \<open>os.Remove\<close> with \<open>b.txt\<close>: it reports success, the file
  \<open>/tmp/src/a/b.txt\<close> is still there, and the file \<open>/b.txt\<close> of the working directory is
  gone.
\<close>

theorem dir_Remove_bare_name:
  "Join [''/tmp/src/a'', ''b.txt''] = ''/tmp/src/a/b.txt''
   \<and> fst (dir_Remove \<lparr>dir_path = ''/tmp/src/a''\<rparr> (Ctx 0) \<lparr>rq_Name = ''b.txt''\<rparr> example_world) = Inr ()
   \<and> trace (snd (dir_Remove \<lparr>dir_path = ''/tmp/src/a''\<rparr> (Ctx 0) \<lparr>rq_Name = ''b.txt''\<rparr> example_world)) =
       [Dispatch ''Remove:start''
          [(''directory'', VDir \<lparr>dir_path = ''/tmp/src/a''\<rparr>), (''context'', VCtx (Ctx 0)),
           (''request'', VRemoveReq \<lparr>rq_Name = ''b.txt''\<rparr>)] [0],
        Syscall (Remove ''b.txt''),
        Dispatch ''Remove:end''
          [(''directory'', VDir \<lparr>dir_path = ''/tmp/src/a''\<rparr>), (''error'', VNil)] [0]]
   \<and> lookup_name (snd (dir_Remove \<lparr>dir_path = ''/tmp/src/a''\<rparr> (Ctx 0) \<lparr>rq_Name = ''b.txt''\<rparr> example_world))
         ''/tmp/src/a/b.txt'' = Inr (File 420 (Some \<lparr>Ino = 5\<rparr>) [104, 105])
   \<and> lookup_name example_world ''/b.txt'' = Inr (File 420 (Some \<lparr>Ino = 6\<rparr>) [104, 101, 108, 108, 111])
   \<and> lookup_name (snd (dir_Remove \<lparr>dir_path = ''/tmp/src/a''\<rparr> (Ctx 0) \<lparr>rq_Name = ''b.txt''\<rparr> example_world))
         ''/b.txt'' = Inl ENOENT"
  by code_simp

subsection \<open>Start and end events\<close>

text \<open>
  Claim C3 says that every operation dispatches its end event before returning, on the
  success path and on every error path, with the outcome it observed. On the example world:
  \<open>Mkdir\<close> of the existing name \<open>a\<close> in \<open>/tmp/src\<close> fails with \<open>EEXIST\<close> and dispatches
  \<open>Mkdir:end\<close> with a \<open>nil\<close> error; \<open>Attr\<close> of a directory node whose path is missing
  returns \<open>ENOENT\<close> after \<open>attr:start\<close> and the stat, with no end event; \<open>Write\<close> to a file
  node whose path is missing returns the stat error after \<open>Write:start\<close> and the stat, with
  no end event.
\<close>

theorem end_event_missing_or_wrong:
  "fst (dir_Mkdir \<lparr>dir_path = ''/tmp/src''\<rparr> (Ctx 0) \<lparr>mq_Name = ''a'', mq_Mode = 493\<rparr> example_world)
     = Inl (PathError ''mkdir'' ''/tmp/src/a'' (Errno EEXIST))
   \<and> trace (snd (dir_Mkdir \<lparr>dir_path = ''/tmp/src''\<rparr> (Ctx 0) \<lparr>mq_Name = ''a'', mq_Mode = 493\<rparr> example_world)) =
       [Dispatch ''Mkdir:start''
          [(''directory'', VDir \<lparr>dir_path = ''/tmp/src''\<rparr>), (''context'', VCtx (Ctx 0)),
           (''request'', VMkdirReq \<lparr>mq_Name = ''a'', mq_Mode = 493\<rparr>)] [0],
        Syscall (Mkdir ''/tmp/src/a'' 493),
        Dispatch ''Mkdir:end''
          [(''directory'', VDir \<lparr>dir_path = ''/tmp/src''\<rparr>), (''node'', VNil), (''error'', VNil)] [1, 0]]
   \<and> fst (dir_Attr \<lparr>dir_path = ''/nope''\<rparr> (Ctx 0) zero_Attr example_world) = Inl (Errno ENOENT)
   \<and> trace (snd (snd (dir_Attr \<lparr>dir_path = ''/nope''\<rparr> (Ctx 0) zero_Attr example_world))) =
       [Dispatch ''attr:start''
          [(''directory'', VDir \<lparr>dir_path = ''/nope''\<rparr>), (''context'', VCtx (Ctx 0)),
           (''attr'', VAttr zero_Attr)] [0],
        Syscall (Stat ''/nope'')]
   \<and> fst (file_Write \<lparr>file_path = ''/nope''\<rparr> (Ctx 0)
            \<lparr>wq_Flags = 0, wq_Data = [120], wq_Offset = 0\<rparr> \<lparr>wr_Size = 0\<rparr> example_world)
       = Inl (PathError ''stat'' ''/nope'' (Errno ENOENT))
   \<and> trace (snd (snd (file_Write \<lparr>file_path = ''/nope''\<rparr> (Ctx 0)
            \<lparr>wq_Flags = 0, wq_Data = [120], wq_Offset = 0\<rparr> \<lparr>wr_Size = 0\<rparr> example_world))) =
       [Dispatch ''Write:start''
          [(''file'', VFile \<lparr>file_path = ''/nope''\<rparr>), (''context'', VCtx (Ctx 0)),
           (''request'', VWriteReq \<lparr>wq_Flags = 0, wq_Data = [120], wq_Offset = 0\<rparr>),
           (''response'', VWriteResp \<lparr>wr_Size = 0\<rparr>)] [0],
        Syscall (Stat ''/nope'')]"
  by code_simp

subsection \<open>Create\<close>

text \<open>
  A successful \<open>Create\<close> has dispatched \<open>Create:start\<close>, opened the name it was given with
  the request's flags and mode, closed that handle and dispatched \<open>Create:end\<close>; it returns
  one \<open>file\<close> bound to that name as the node and as the handle. The copy of \<open>dir.go\<close> that
  joins the paths therefore opens and binds the joined path.
\<close>

lemma create_at_success:
  assumes "create_at name d c req resp w = (Inr (F, H), w')"
  shows "\<exists>p. F = NewFile name \<and> H = F
     \<and> trace w' = trace w @
         [Dispatch ''Create:start''
            [(''directory'', VDir d), (''context'', VCtx c),
             (''request'', VCreateReq req), (''response'', VCreateResp resp)]
            (subscribers w ''Create:start'' @ subscribers w ''*''),
          Syscall (OpenFile name (ucast (cq_Flags req)) (cq_Mode req)),
          Syscall (Close \<lparr>of_name = name, of_path = p, of_flag = ucast (cq_Flags req)\<rparr>),
          Dispatch ''Create:end''
            [(''directory'', VDir d), (''node'', VNil), (''handle'', VNil), (''error'', VNil)]
            (subscribers w ''Create:end'' @ subscribers w ''*'')]"
  using assms
  apply (simp add: create_at_def Handle_eq Let_def split: sum.splits prod.splits)
  apply (simp add: os_OpenFile_def os_File_Close_def record_call_def Let_def
          split: sum.splits prod.splits inode.splits if_splits)
       apply (auto simp: subscribers_def)
  done

lemma dir_Create_joined_success:
  assumes "dir_Create_joined d c req resp w = (Inr (F, H), w')"
  shows "\<exists>p. F = NewFile (Join [dir_path d, cq_Name req]) \<and> H = F
     \<and> trace w' = trace w @
         [Dispatch ''Create:start''
            [(''directory'', VDir d), (''context'', VCtx c),
             (''request'', VCreateReq req), (''response'', VCreateResp resp)]
            (subscribers w ''Create:start'' @ subscribers w ''*''),
          Syscall (OpenFile (Join [dir_path d, cq_Name req]) (ucast (cq_Flags req)) (cq_Mode req)),
          Syscall (Close \<lparr>of_name = Join [dir_path d, cq_Name req], of_path = p,
                           of_flag = ucast (cq_Flags req)\<rparr>),
          Dispatch ''Create:end''
            [(''directory'', VDir d), (''node'', VNil), (''handle'', VNil), (''error'', VNil)]
            (subscribers w ''Create:end'' @ subscribers w ''*'')]"
  using create_at_success [of "Join [dir_path d, cq_Name req]" d c req resp w F H w'] assms
  by (simp add: dir_Create_joined_def Let_def)

text \<open>
  Claim C5 says that \<open>Create\<close> opens the file at the directory's path joined with the name
  and returns a file node bound to that joined path. On the example world, with the working
  directory at the root, \<open>Create\<close> of \<open>mirrorfs/dir.go\<close> for \<open>f.txt\<close> in the directory
  \<open>/tmp/src/a\<close> opens \<open>f.txt\<close>: the file is created as \<open>/f.txt\<close>, nothing exists at
  \<open>/tmp/src/a/f.txt\<close>, and the returned node is bound to \<open>f.txt\<close>.
\<close>

theorem dir_Create_bare_name:
  "Join [''/tmp/src/a'', ''f.txt''] = ''/tmp/src/a/f.txt''
   \<and> fst (dir_Create \<lparr>dir_path = ''/tmp/src/a''\<rparr> (Ctx 0)
            \<lparr>cq_Name = ''f.txt'', cq_Flags = 66, cq_Mode = 420\<rparr> \<lparr>cr_Attr = zero_Attr\<rparr> example_world)
       = Inr (\<lparr>file_path = ''f.txt''\<rparr>, \<lparr>file_path = ''f.txt''\<rparr>)
   \<and> trace (snd (dir_Create \<lparr>dir_path = ''/tmp/src/a''\<rparr> (Ctx 0)
            \<lparr>cq_Name = ''f.txt'', cq_Flags = 66, cq_Mode = 420\<rparr> \<lparr>cr_Attr = zero_Attr\<rparr> example_world)) =
       [Dispatch ''Create:start''
          [(''directory'', VDir \<lparr>dir_path = ''/tmp/src/a''\<rparr>), (''context'', VCtx (Ctx 0)),
           (''request'', VCreateReq \<lparr>cq_Name = ''f.txt'', cq_Flags = 66, cq_Mode = 420\<rparr>),
           (''response'', VCreateResp \<lparr>cr_Attr = zero_Attr\<rparr>)] [0],
        Syscall (OpenFile ''f.txt'' 66 420),
        Syscall (Close \<lparr>of_name = ''f.txt'', of_path = [''f.txt''], of_flag = 66\<rparr>),
        Dispatch ''Create:end''
          [(''directory'', VDir \<lparr>dir_path = ''/tmp/src/a''\<rparr>), (''node'', VNil),
           (''handle'', VNil), (''error'', VNil)] [0]]
   \<and> lookup_name (snd (dir_Create \<lparr>dir_path = ''/tmp/src/a''\<rparr> (Ctx 0)
            \<lparr>cq_Name = ''f.txt'', cq_Flags = 66, cq_Mode = 420\<rparr> \<lparr>cr_Attr = zero_Attr\<rparr> example_world))
         ''/tmp/src/a/f.txt'' = Inl ENOENT
   \<and> lookup_name (snd (dir_Create \<lparr>dir_path = ''/tmp/src/a''\<rparr> (Ctx 0)
            \<lparr>cq_Name = ''f.txt'', cq_Flags = 66, cq_Mode = 420\<rparr> \<lparr>cr_Attr = zero_Attr\<rparr> example_world))
         ''/f.txt'' = Inr (File 420 (Some \<lparr>Ino = 7\<rparr>) [])"
  by code_simp

subsection \<open>Write followed by ReadAll\<close>










end
